theory Spec2Isabelle
  imports Complex_Main "HOL-Library.Multiset"
begin

section \<open>Speaker-labelled transcription: a model of \<open>trans.py\<close>\<close>

text \<open>
  The script has one function, \<open>transcribe_speaker_diarization\<close>, and a command-line
  entry point. The function converts an M4A input to WAV, runs a diarization pipeline,
  transcribes every diarized track through a scratch file, sorts the collected segments
  by start time and renders them as text.

  Conventions of the model:
  \<^item> A Python \<open>float\<close> is represented by the rational number it denotes. Every finite
    double is such a number; NaN, the infinities and the sign of zero are not represented.
    Ordering and \<open>:.2f\<close> formatting of a finite double are functions of that number.
  \<^item> The disk is a partial map from path strings to file contents. A path string names
    one file (no links, no case folding by the file system), and writing or removing a
    file does not fail.
  \<^item> The libraries the script calls (pydub, pyannote, whisper) are parameters, collected in
    the record \<open>collab\<close>. Each call that can raise returns an \<open>option\<close>.
\<close>

subsection \<open>Strings\<close>

definition lower_char :: "char \<Rightarrow> char" where
  "lower_char c = (let n = (of_char c :: nat) in if 65 \<le> n \<and> n \<le> 90 then char_of (n + 32) else c)"

text \<open>\<open>str.lower\<close> on ASCII letters; other characters are left as they are.\<close>

definition lower :: "string \<Rightarrow> string" where
  "lower s = map lower_char s"

definition endswith :: "string \<Rightarrow> string \<Rightarrow> bool" where
  "endswith s suf = (length suf \<le> length s \<and> drop (length s - length suf) s = suf)"

definition startswith :: "string \<Rightarrow> string \<Rightarrow> bool" where
  "startswith s p = (take (length p) s = p)"

text \<open>
  \<open>s.replace(old, new)\<close>: every non-overlapping occurrence of \<open>old\<close>, found from the left,
  is replaced. \<open>replace_from\<close> is the scan for a non-empty \<open>old\<close>; an empty \<open>old\<close> matches
  before every character and at the end.
\<close>

function replace_from :: "string \<Rightarrow> string \<Rightarrow> string \<Rightarrow> string" where
  "replace_from old new [] = []"
| "replace_from old new (c # cs) =
     (if startswith (c # cs) old
      then new @ replace_from old new (drop (length old - 1) cs)
      else c # replace_from old new cs)"
  by pat_completeness auto
termination
  by (relation "measure (\<lambda>(old, new, s). length s)") auto

definition replace :: "string \<Rightarrow> string \<Rightarrow> string \<Rightarrow> string" where
  "replace s old new =
     (if old = [] then new @ concat (map (\<lambda>c. c # new) s) else replace_from old new s)"

definition is_space :: "char \<Rightarrow> bool" where
  "is_space c = ((of_char c :: nat) \<in> set [9, 10, 11, 12, 13, 28, 29, 30, 31, 32])"

text \<open>\<open>str.strip()\<close> with the ASCII whitespace characters.\<close>

definition strip :: "string \<Rightarrow> string" where
  "strip s = rev (dropWhile is_space (rev (dropWhile is_space s)))"

subsection \<open>Formatting a float with two decimals\<close>

definition digit_char :: "nat \<Rightarrow> char" where
  "digit_char d = ''0123456789'' ! (d mod 10)"

fun str_nat :: "nat \<Rightarrow> string" where
  "str_nat n = (if n < 10 then [digit_char n] else str_nat (n div 10) @ [digit_char (n mod 10)])"

declare str_nat.simps [simp del]

text \<open>Rounding to the nearest integer, a tie going to the even neighbour.\<close>

definition round_half_even :: "rat \<Rightarrow> int" where
  "round_half_even q =
     (let f = \<lfloor>q\<rfloor>; r = q - of_int f
      in if r < 1 / 2 then f else if 1 / 2 < r then f + 1 else if even f then f else f + 1)"

text \<open>
  \<open>format(x, '.2f')\<close>: the decimal numeral with two fractional digits nearest to \<open>x\<close>,
  with a minus sign for a negative \<open>x\<close>.
\<close>

definition format_2f :: "rat \<Rightarrow> string" where
  "format_2f x =
     (let n = nat (round_half_even (\<bar>x\<bar> * 100))
      in (if x < 0 then ''-'' else '''') @ str_nat (n div 100) @ ''.''
           @ [digit_char (n mod 100 div 10), digit_char (n mod 10)])"

subsection \<open>Data\<close>

text \<open>
  One item of \<open>itertracks(yield_label=True)\<close>: the segment's bounds, the track name (which
  the loop ignores) and the speaker label.
\<close>

record track =
  seg_start :: rat
  seg_end :: rat
  track_name :: string
  label :: string

text \<open>The dictionary appended to \<open>segments\<close> for each track.\<close>

record utterance =
  d_speaker :: string
  d_start :: rat
  d_end :: rat
  d_text :: string

datatype error = InputNotFound | DecodeFailure | ModelLoadFailure | DiarizationFailure
  | TranscriptionFailure

type_synonym 'c fs = "string \<rightharpoonup> 'c"

text \<open>
  The collaborators. \<open>from_file path format content\<close> is \<open>AudioSegment.from_file\<close> on a file
  with that content; \<open>encode_wav\<close> is what \<open>export(..., format="wav")\<close> writes;
  \<open>get_slice a s e\<close> is \<open>a[s * 1000 : e * 1000]\<close>; \<open>from_pretrained token\<close> is the loaded
  diarization pipeline, a function of the path and content of the file it is run on;
  \<open>load_model\<close> is the loaded speech model, a function of the path and content of the
  file it transcribes, returning \<open>result["text"]\<close>.
\<close>

record ('c, 'a) collab =
  from_file :: "string \<Rightarrow> string option \<Rightarrow> 'c \<Rightarrow> 'a option"
  encode_wav :: "'a \<Rightarrow> 'c"
  get_slice :: "'a \<Rightarrow> rat \<Rightarrow> rat \<Rightarrow> 'a"
  from_pretrained :: "string \<Rightarrow> (string \<Rightarrow> 'c \<Rightarrow> track list option) option"
  load_model :: "(string \<Rightarrow> 'c \<Rightarrow> string option) option"

definition path_exists :: "'c fs \<Rightarrow> string \<Rightarrow> bool" where
  "path_exists fs p = (fs p \<noteq> None)"

definition os_remove :: "'c fs \<Rightarrow> string \<Rightarrow> 'c fs" where
  "os_remove fs p = fs(p := None)"

definition export :: "'c fs \<Rightarrow> string \<Rightarrow> 'c \<Rightarrow> 'c fs" where
  "export fs p c = fs(p \<mapsto> c)"

subsection \<open>Step 0: M4A to WAV\<close>

definition wav_name :: "string \<Rightarrow> string" where
  "wav_name audio_file = replace audio_file ''.m4a'' ''.wav''"

text \<open>
  Returns the path used from here on and the value of \<open>wav_file\<close> (\<open>None\<close> when nothing
  was converted), with the disk after the export.
\<close>

definition convert_m4a ::
  "('c, 'a) collab \<Rightarrow> string \<Rightarrow> 'c fs \<Rightarrow> (error + string \<times> string option) \<times> 'c fs" where
  "convert_m4a E audio_file fs =
     (if endswith (lower audio_file) ''.m4a'' then
        (case fs audio_file of
           None \<Rightarrow> (Inl InputNotFound, fs)
         | Some c \<Rightarrow>
             (case from_file E audio_file (Some ''m4a'') c of
                None \<Rightarrow> (Inl DecodeFailure, fs)
              | Some audio \<Rightarrow>
                  (let wav_file = wav_name audio_file
                   in (Inr (wav_file, Some wav_file), export fs wav_file (encode_wav E audio)))))
      else (Inr (audio_file, None), fs))"

subsection \<open>Step 5: the loop over the diarized tracks\<close>

definition temp_filename :: "string \<Rightarrow> rat \<Rightarrow> string" where
  "temp_filename speaker start_time = ''temp_'' @ speaker @ ''_'' @ format_2f start_time @ ''.wav''"

fun transcribe_tracks ::
  "('c, 'a) collab \<Rightarrow> (string \<Rightarrow> 'c \<Rightarrow> string option) \<Rightarrow> 'a \<Rightarrow> track list \<Rightarrow> utterance list
     \<Rightarrow> 'c fs \<Rightarrow> (error + utterance list) \<times> 'c fs" where
  "transcribe_tracks E whisper_model audio [] segments fs = (Inr segments, fs)"
| "transcribe_tracks E whisper_model audio (tr # rest) segments fs =
     (let start_time = seg_start tr;
          end_time = seg_end tr;
          audio_chunk = get_slice E audio start_time end_time;
          tmp = temp_filename (label tr) start_time;
          fs1 = export fs tmp (encode_wav E audio_chunk)
      in case whisper_model tmp (encode_wav E audio_chunk) of
           None \<Rightarrow> (Inl TranscriptionFailure, fs1)
         | Some raw_text \<Rightarrow>
             transcribe_tracks E whisper_model audio rest
               (segments @ [\<lparr>d_speaker = label tr, d_start = start_time, d_end = end_time,
                             d_text = strip raw_text\<rparr>])
               (if path_exists fs1 tmp then os_remove fs1 tmp else fs1))"

subsection \<open>Steps 6 and 7: sorting and rendering\<close>

definition render_line :: "utterance \<Rightarrow> string" where
  "render_line seg =
     ''Speaker '' @ d_speaker seg @ '' ('' @ format_2f (d_start seg) @ ''s - ''
       @ format_2f (d_end seg) @ ''s): '' @ d_text seg @ [CHR 0x0A]"

definition render :: "utterance list \<Rightarrow> string" where
  "render segments = foldl (\<lambda>transcript_str seg. transcript_str @ render_line seg) [] segments"

text \<open>\<open>list.sort(key=...)\<close> is a stable sort by the key; so is \<^const>\<open>sort_key\<close>.\<close>

definition assemble :: "utterance list \<Rightarrow> string" where
  "assemble segments = render (sort_key d_start segments)"

definition cleanup :: "string option \<Rightarrow> 'c fs \<Rightarrow> 'c fs" where
  "cleanup wav_file fs =
     (case wav_file of
        None \<Rightarrow> fs
      | Some w \<Rightarrow> if w \<noteq> [] \<and> path_exists fs w then os_remove fs w else fs)"

subsection \<open>The function\<close>

definition transcribe_speaker_diarization ::
  "('c, 'a) collab \<Rightarrow> string \<Rightarrow> string \<Rightarrow> 'c fs \<Rightarrow> (error + string) \<times> 'c fs" where
  "transcribe_speaker_diarization E audio_file hf_token fs =
     (case convert_m4a E audio_file fs of
        (Inl e, fs1) \<Rightarrow> (Inl e, fs1)
      | (Inr (audio_file', wav_file), fs1) \<Rightarrow>
          (case from_pretrained E hf_token of
             None \<Rightarrow> (Inl ModelLoadFailure, fs1)
           | Some pipeline \<Rightarrow>
               (case fs1 audio_file' of
                  None \<Rightarrow> (Inl InputNotFound, fs1)
                | Some c \<Rightarrow>
                    (case pipeline audio_file' c of
                       None \<Rightarrow> (Inl DiarizationFailure, fs1)
                     | Some diarization_result \<Rightarrow>
                         (case load_model E of
                            None \<Rightarrow> (Inl ModelLoadFailure, fs1)
                          | Some whisper_model \<Rightarrow>
                              (case from_file E audio_file' None c of
                                 None \<Rightarrow> (Inl DecodeFailure, fs1)
                               | Some audio \<Rightarrow>
                                   (case transcribe_tracks E whisper_model audio
                                           diarization_result [] fs1 of
                                      (Inl e, fs2) \<Rightarrow> (Inl e, fs2)
                                    | (Inr segments, fs2) \<Rightarrow>
                                        (Inr (assemble segments), cleanup wav_file fs2))))))))"

text \<open>
  What the diarization pipeline yields in a run: the first two steps of the function,
  up to \<open>diarization_result\<close>.
\<close>

definition diarize ::
  "('c, 'a) collab \<Rightarrow> string \<Rightarrow> string \<Rightarrow> 'c fs \<Rightarrow> track list option" where
  "diarize E audio_file hf_token fs =
     (case convert_m4a E audio_file fs of
        (Inl e, fs1) \<Rightarrow> None
      | (Inr (audio_file', wav_file), fs1) \<Rightarrow>
          (case from_pretrained E hf_token of
             None \<Rightarrow> None
           | Some pipeline \<Rightarrow>
               (case fs1 audio_file' of None \<Rightarrow> None | Some c \<Rightarrow> pipeline audio_file' c)))"

subsection \<open>The command line\<close>

datatype outcome = Exit string int | Raised error

definition usage :: string where
  "usage = ''Usage: python transcribe_with_diarization.py <audio_file> <hf_token>''"

text \<open>
  \<open>argv\<close> is \<open>sys.argv\<close>, the script name first. The outcome is what was printed and the
  exit status, or the exception that ended the process.
\<close>

definition main :: "('c, 'a) collab \<Rightarrow> string list \<Rightarrow> 'c fs \<Rightarrow> outcome \<times> 'c fs" where
  "main E argv fs =
     (if length argv < 3 then (Exit (usage @ [CHR 0x0A]) 1, fs)
      else case transcribe_speaker_diarization E (argv ! 1) (argv ! 2) fs of
             (Inl e, fs') \<Rightarrow> (Raised e, fs')
           | (Inr transcript, fs') \<Rightarrow> (Exit (transcript @ [CHR 0x0A]) 0, fs'))"

subsection \<open>Vocabulary of the statements\<close>

text \<open>
  What a yielded track and a collected segment have in common, and the scratch file of a
  track (the name the loop computes for it).
\<close>

definition track_key :: "track \<Rightarrow> string \<times> rat \<times> rat" where
  "track_key tr = (label tr, seg_start tr, seg_end tr)"

definition utterance_key :: "utterance \<Rightarrow> string \<times> rat \<times> rat" where
  "utterance_key u = (d_speaker u, d_start u, d_end u)"

definition scratch_name :: "track \<Rightarrow> string" where
  "scratch_name tr = temp_filename (label tr) (seg_start tr)"

subsection \<open>A concrete run\<close>

text \<open>
  Collaborators that decode any file, prefix \<open>RIFF\<close> on export, yield three tracks out
  of start order (two of them tied) and transcribe every chunk as \<open>ok\<close> with blanks
  around it; a second set whose diarization is empty; and a disk with two M4A files.
\<close>

definition tracks0 :: "track list" where
  "tracks0 =
     [\<lparr>seg_start = 5 / 2, seg_end = 4, track_name = ''B'', label = ''SPEAKER_01''\<rparr>,
      \<lparr>seg_start = 0, seg_end = 5 / 2, track_name = ''A'', label = ''SPEAKER_00''\<rparr>,
      \<lparr>seg_start = 5 / 2, seg_end = 3, track_name = ''C'', label = ''SPEAKER_00''\<rparr>]"

definition E0 :: "(string, string) collab" where
  "E0 = \<lparr>from_file = (\<lambda>path fmt c. Some c),
          encode_wav = (\<lambda>a. ''RIFF'' @ a),
          get_slice = (\<lambda>a s e. a),
          from_pretrained = (\<lambda>token. Some (\<lambda>path c. Some tracks0)),
          load_model = Some (\<lambda>path c. Some '' ok '')\<rparr>"

definition E1 :: "(string, string) collab" where
  "E1 = E0\<lparr>from_pretrained := (\<lambda>token. Some (\<lambda>path c. Some []))\<rparr>"

definition fs0 :: "string fs" where
  "fs0 = [''talk.m4a'' \<mapsto> ''m4a bytes'', ''SONG.M4A'' \<mapsto> ''more bytes'']"

definition transcript0 :: string where
  "transcript0 = ''Speaker SPEAKER_00 (0.00s - 2.50s): ok'' @ [CHR 0x0A]
     @ ''Speaker SPEAKER_01 (2.50s - 4.00s): ok'' @ [CHR 0x0A]
     @ ''Speaker SPEAKER_00 (2.50s - 3.00s): ok'' @ [CHR 0x0A]"

section \<open>Properties\<close>

subsection \<open>The loop and a successful run\<close>

lemma foldl_append_concat:
  "foldl (\<lambda>acc x. acc @ f x) acc xs = acc @ concat (map f xs)"
  by (induction xs arbitrary: acc) simp_all

lemma render_concat: "render segments = concat (map render_line segments)"
  by (simp add: render_def foldl_append_concat)

text \<open>The loop appends one segment per track, in the order the tracks are yielded.\<close>

lemma loop_segments:
  "transcribe_tracks E m a trs acc fs = (Inr segs, fs') \<Longrightarrow>
     map utterance_key segs = map utterance_key acc @ map track_key trs"
proof (induction trs arbitrary: acc fs)
  case Nil
  then show ?case by simp
next
  case (Cons tr trs)
  from Cons.prems obtain raw acc' fs1 where
    step: "transcribe_tracks E m a trs acc' fs1 = (Inr segs, fs')"
    and acc_eq: "acc' = acc @ [\<lparr>d_speaker = label tr, d_start = seg_start tr,
                                d_end = seg_end tr, d_text = strip raw\<rparr>]"
    by (auto simp: Let_def split: option.splits)
  from Cons.IH[OF step] show ?case
    by (simp add: acc_eq utterance_key_def track_key_def)
qed

lemma export_remove: "os_remove (export fs p c) p = fs(p := None)"
  by (simp add: os_remove_def export_def)

lemma path_exists_export: "path_exists (export fs p c) p"
  by (simp add: path_exists_def export_def)

text \<open>
  After a loop that ran to its end, the disk is the one before the loop without the
  scratch files of the tracks.
\<close>

lemma loop_disk:
  "transcribe_tracks E m a trs acc fs = (Inr segs, fs') \<Longrightarrow>
     fs' = (\<lambda>p. if p \<in> scratch_name ` set trs then None else fs p)"
proof (induction trs arbitrary: acc fs)
  case Nil
  then show ?case by simp
next
  case (Cons tr trs)
  from Cons.prems obtain acc' where
    step: "transcribe_tracks E m a trs acc' (fs(scratch_name tr := None)) = (Inr segs, fs')"
    by (auto simp: Let_def scratch_name_def path_exists_export export_remove
        split: option.splits)
  from Cons.IH[OF step] show ?case
    by (auto simp: fun_eq_iff)
qed

text \<open>What a run that returns a transcript went through.\<close>

lemma run_success:
  assumes "fst (transcribe_speaker_diarization E audio_file hf_token fs) = Inr transcript"
  shows "\<exists>audio_file' wav_file fs1 trs segments.
           convert_m4a E audio_file fs = (Inr (audio_file', wav_file), fs1)
         \<and> diarize E audio_file hf_token fs = Some trs
         \<and> map utterance_key segments = map track_key trs
         \<and> transcript = assemble segments
         \<and> snd (transcribe_speaker_diarization E audio_file hf_token fs)
             = cleanup wav_file (\<lambda>p. if p \<in> scratch_name ` set trs then None else fs1 p)"
proof -
  obtain r fs1 where conv: "convert_m4a E audio_file fs = (r, fs1)"
    by (cases "convert_m4a E audio_file fs")
  from assms conv obtain audio_file' wav_file where r: "r = Inr (audio_file', wav_file)"
    by (cases r) (auto simp: transcribe_speaker_diarization_def)
  from assms conv r obtain pipeline c trs whisper_model audio where
    pl: "from_pretrained E hf_token = Some pipeline"
    and c: "fs1 audio_file' = Some c"
    and trs: "pipeline audio_file' c = Some trs"
    and wm: "load_model E = Some whisper_model"
    and au: "from_file E audio_file' None c = Some audio"
    by (auto simp: transcribe_speaker_diarization_def split: option.splits)
  obtain q fs2 where loop: "transcribe_tracks E whisper_model audio trs [] fs1 = (q, fs2)"
    by (cases "transcribe_tracks E whisper_model audio trs [] fs1")
  from assms conv r pl c trs wm au loop obtain segments where q: "q = Inr segments"
    by (cases q) (auto simp: transcribe_speaker_diarization_def)
  have t: "transcript = assemble segments"
    and d: "snd (transcribe_speaker_diarization E audio_file hf_token fs) = cleanup wav_file fs2"
    using assms conv r pl c trs wm au loop q
    by (auto simp: transcribe_speaker_diarization_def)
  have dz: "diarize E audio_file hf_token fs = Some trs"
    using conv r pl c trs by (simp add: diarize_def)
  have keys: "map utterance_key segments = map track_key trs"
    using loop_segments[of E whisper_model audio trs "[]" fs1 segments fs2] loop q by simp
  have fs2: "fs2 = (\<lambda>p. if p \<in> scratch_name ` set trs then None else fs1 p)"
    using loop_disk[of E whisper_model audio trs "[]" fs1 segments fs2] loop q by simp
  show ?thesis
    using conv r dz keys t d fs2 by blast
qed

subsection \<open>The concrete runs\<close>

lemma run0: "fst (transcribe_speaker_diarization E0 ''talk.m4a'' ''hf'' fs0) = Inr transcript0"
  by code_simp

lemma diar0: "diarize E0 ''talk.m4a'' ''hf'' fs0 = Some tracks0"
  by code_simp

lemma run1: "fst (transcribe_speaker_diarization E1 ''talk.m4a'' ''hf'' fs0) = Inr []"
  by code_simp

lemma diar1: "diarize E1 ''talk.m4a'' ''hf'' fs0 = Some []"
  by code_simp

subsection \<open>Characters of a formatted number\<close>








lemma replace_from_nonempty:
  "new \<noteq> [] \<Longrightarrow> s \<noteq> [] \<Longrightarrow> replace_from old new s \<noteq> []"
  by (cases s) simp_all

lemma wav_name_nonempty:
  "endswith (lower audio_file) ''.m4a'' \<Longrightarrow> wav_name audio_file \<noteq> []"
proof -
  assume "endswith (lower audio_file) ''.m4a''"
  then have "audio_file \<noteq> []"
    by (auto simp: endswith_def lower_def)
  then show ?thesis
    by (simp add: wav_name_def replace_def replace_from_nonempty)
qed

subsection \<open>The claims\<close>

text \<open>
  Claim C1. Whatever order the diarization pipeline yields its tracks in, a run that
  returns a transcript renders the collected segments in non-decreasing order of start
  time: the transcript is the concatenation of the lines of a list \<open>segs\<close> that is sorted
  by start and is a rearrangement of the segments collected from the yielded tracks.
\<close>

theorem transcript_in_start_order:
  assumes "fst (transcribe_speaker_diarization E audio_file hf_token fs) = Inr transcript"
  shows "\<exists>trs segments segs.
           diarize E audio_file hf_token fs = Some trs
         \<and> map utterance_key segments = map track_key trs
         \<and> mset segs = mset segments
         \<and> sorted (map d_start segs)
         \<and> transcript = concat (map render_line segs)"
proof -
  from run_success[OF assms] obtain trs segments where
    "diarize E audio_file hf_token fs = Some trs"
    "map utterance_key segments = map track_key trs"
    "transcript = assemble segments"
    by blast
  moreover have "mset (sort_key d_start segments) = mset segments"
    by simp
  moreover have "sorted (map d_start (sort_key d_start segments))"
    by (rule sorted_sort_key)
  ultimately show ?thesis
    unfolding assemble_def render_concat by blast
qed

theorem transcript_in_start_order_witness:
  "fst (transcribe_speaker_diarization E0 ''talk.m4a'' ''hf'' fs0) = Inr transcript0
   \<and> (\<exists>trs segments segs.
           diarize E0 ''talk.m4a'' ''hf'' fs0 = Some trs
         \<and> map utterance_key segments = map track_key trs
         \<and> mset segs = mset segments
         \<and> sorted (map d_start segs)
         \<and> transcript0 = concat (map render_line segs))"
  using transcript_in_start_order[OF run0] run0 by simp



text \<open>
  Claim C3 says that an input whose extension is M4A in any letter case is converted to
  a file with the same stem and the extension \<open>.wav\<close>. The test for the extension folds
  case, the replacement that derives the name does not: for \<open>SONG.M4A\<close> the derived name
  is \<open>SONG.M4A\<close> itself, which becomes both the export target and the working path.
\<close>

theorem uppercase_extension_not_renamed:
  "endswith (lower ''SONG.M4A'') ''.m4a''
   \<and> wav_name ''SONG.M4A'' = ''SONG.M4A''
   \<and> fst (convert_m4a E0 ''SONG.M4A'' fs0) = Inr (''SONG.M4A'', Some ''SONG.M4A'')"
  by code_simp

text \<open>
  Claim C4. After a run that returns a transcript, no scratch file of a yielded track is
  on the disk.
\<close>

theorem scratch_files_deleted:
  assumes "fst (transcribe_speaker_diarization E audio_file hf_token fs) = Inr transcript"
  shows "\<exists>trs. diarize E audio_file hf_token fs = Some trs
         \<and> (\<forall>tr \<in> set trs.
               snd (transcribe_speaker_diarization E audio_file hf_token fs) (scratch_name tr)
                 = None)"
proof -
  from run_success[OF assms] obtain wav_file fs1 trs where
    dz: "diarize E audio_file hf_token fs = Some trs"
    and disk: "snd (transcribe_speaker_diarization E audio_file hf_token fs)
             = cleanup wav_file (\<lambda>p. if p \<in> scratch_name ` set trs then None else fs1 p)"
    by blast
  have "cleanup wav_file (\<lambda>p. if p \<in> scratch_name ` set trs then None else fs1 p)
          (scratch_name tr) = None"
    if "tr \<in> set trs" for tr
    using that by (simp add: cleanup_def os_remove_def split: option.splits)
  with dz disk show ?thesis by simp
qed

theorem scratch_files_deleted_witness:
  "fst (transcribe_speaker_diarization E0 ''talk.m4a'' ''hf'' fs0) = Inr transcript0
   \<and> (\<exists>trs. diarize E0 ''talk.m4a'' ''hf'' fs0 = Some trs
         \<and> trs \<noteq> []
         \<and> list_all (\<lambda>tr. snd (transcribe_speaker_diarization E0 ''talk.m4a'' ''hf'' fs0)
                             (scratch_name tr) = None) trs)"
proof -
  have "tracks0 \<noteq> []"
    by code_simp
  with scratch_files_deleted[OF run0] run0 diar0 show ?thesis
    by (simp add: list_all_iff)
qed

text \<open>
  Claim C5. For an input whose name ends in \<open>.m4a\<close> in any letter case, a run that returns
  a transcript has written the converted waveform under the derived name during step 0,
  and that name is absent from the disk when the run returns.
\<close>

theorem converted_wav_created_and_removed:
  assumes "endswith (lower audio_file) ''.m4a''"
    and "fst (transcribe_speaker_diarization E audio_file hf_token fs) = Inr transcript"
  shows "\<exists>c audio.
           fs audio_file = Some c
         \<and> from_file E audio_file (Some ''m4a'') c = Some audio
         \<and> snd (convert_m4a E audio_file fs) (wav_name audio_file) = Some (encode_wav E audio)
         \<and> snd (transcribe_speaker_diarization E audio_file hf_token fs) (wav_name audio_file)
             = None"
proof -
  from run_success[OF assms(2)] obtain audio_file' wav_file fs1 trs where
    conv: "convert_m4a E audio_file fs = (Inr (audio_file', wav_file), fs1)"
    and disk: "snd (transcribe_speaker_diarization E audio_file hf_token fs)
             = cleanup wav_file (\<lambda>p. if p \<in> scratch_name ` set trs then None else fs1 p)"
    by blast
  from conv assms(1) obtain c audio where
    c: "fs audio_file = Some c"
    and au: "from_file E audio_file (Some ''m4a'') c = Some audio"
    and wf: "wav_file = Some (wav_name audio_file)"
    and fs1: "fs1 = export fs (wav_name audio_file) (encode_wav E audio)"
    by (auto simp: convert_m4a_def Let_def split: option.splits)
  have "snd (convert_m4a E audio_file fs) (wav_name audio_file) = Some (encode_wav E audio)"
    using conv fs1 by (simp add: export_def)
  moreover have "cleanup wav_file g (wav_name audio_file) = None" for g :: "'a fs"
    using wav_name_nonempty[OF assms(1)]
    by (simp add: wf cleanup_def os_remove_def path_exists_def)
  ultimately show ?thesis
    using c au disk by simp
qed

theorem converted_wav_created_and_removed_witness:
  "endswith (lower ''talk.m4a'') ''.m4a''
   \<and> fst (transcribe_speaker_diarization E0 ''talk.m4a'' ''hf'' fs0) = Inr transcript0
   \<and> wav_name ''talk.m4a'' = ''talk.wav''
   \<and> (\<exists>c audio.
           fs0 ''talk.m4a'' = Some c
         \<and> from_file E0 ''talk.m4a'' (Some ''m4a'') c = Some audio
         \<and> snd (convert_m4a E0 ''talk.m4a'' fs0) (wav_name ''talk.m4a'')
             = Some (encode_wav E0 audio)
         \<and> snd (transcribe_speaker_diarization E0 ''talk.m4a'' ''hf'' fs0)
             (wav_name ''talk.m4a'') = None)"
proof -
  have m4a: "endswith (lower ''talk.m4a'') ''.m4a''"
    by code_simp
  have "wav_name ''talk.m4a'' = ''talk.wav''"
    by code_simp
  with converted_wav_created_and_removed[OF m4a run0] m4a run0 show ?thesis
    by simp
qed

text \<open>
  Claim C6. For the two segments A (0.0 to 2.5, \<open>hello\<close>) and B (2.5 to 4.0, \<open>world\<close>) the
  assembler produces exactly two newline-terminated lines with two-decimal times.
\<close>

theorem two_segments_rendered:
  "assemble [\<lparr>d_speaker = ''A'', d_start = 0, d_end = 5 / 2, d_text = ''hello''\<rparr>,
             \<lparr>d_speaker = ''B'', d_start = 5 / 2, d_end = 4, d_text = ''world''\<rparr>]
   = ''Speaker A (0.00s - 2.50s): hello'' @ [CHR 0x0A]
     @ ''Speaker B (2.50s - 4.00s): world'' @ [CHR 0x0A]"
  by code_simp

text \<open>
  Claim C7. When the diarization pipeline yields no track, the function returns the
  empty string; the only other ways out are the exceptions of loading the speech model
  and of decoding the audio, which come before the loop.
\<close>

theorem no_segments_empty_transcript:
  assumes "diarize E audio_file hf_token fs = Some []"
  shows "fst (transcribe_speaker_diarization E audio_file hf_token fs) = Inr []
       \<or> fst (transcribe_speaker_diarization E audio_file hf_token fs) = Inl ModelLoadFailure
       \<or> fst (transcribe_speaker_diarization E audio_file hf_token fs) = Inl DecodeFailure"
  using assms
  by (auto simp: transcribe_speaker_diarization_def diarize_def assemble_def render_def
      split: prod.splits sum.splits option.splits)

theorem no_segments_empty_transcript_witness:
  "diarize E1 ''talk.m4a'' ''hf'' fs0 = Some []
   \<and> fst (transcribe_speaker_diarization E1 ''talk.m4a'' ''hf'' fs0) = Inr []"
  using no_segments_empty_transcript[OF diar1] diar1 run1 by simp

text \<open>
  Claim C8. With fewer than two arguments after the script name the program prints the
  usage line and exits with status 1, leaving the disk as it was; with two or more it
  runs the function on the first two.
\<close>

theorem main_usage_or_pipeline:
  "main E (prog # args) fs =
     (if length args < 2 then (Exit (usage @ [CHR 0x0A]) 1, fs)
      else case transcribe_speaker_diarization E (args ! 0) (args ! 1) fs of
             (Inl e, fs') \<Rightarrow> (Raised e, fs')
           | (Inr transcript, fs') \<Rightarrow> (Exit (transcript @ [CHR 0x0A]) 0, fs'))"
  by (auto simp: main_def)

text \<open>
  Claim C9 says that a successful run leaves the caller's input file in place and
  unchanged. For the input \<open>SONG.M4A\<close> the export of step 0 overwrites the input with
  the converted waveform, and the final clean-up removes it: the run returns a transcript
  and the input is gone.
\<close>

theorem uppercase_input_overwritten_and_deleted:
  "fs0 ''SONG.M4A'' = Some ''more bytes''
   \<and> fst (transcribe_speaker_diarization E0 ''SONG.M4A'' ''hf'' fs0) = Inr transcript0
   \<and> snd (convert_m4a E0 ''SONG.M4A'' fs0) ''SONG.M4A'' = Some ''RIFFmore bytes''
   \<and> snd (transcribe_speaker_diarization E0 ''SONG.M4A'' ''hf'' fs0) ''SONG.M4A'' = None"
  by code_simp

text \<open>
  Claim C10. The sort is stable: for every start time, the rendered segments with that
  start are the collected segments with that start, in the order in which the loop
  collected them, which is the order in which the tracks were yielded.
\<close>

theorem ties_keep_yield_order:
  assumes "fst (transcribe_speaker_diarization E audio_file hf_token fs) = Inr transcript"
  shows "\<exists>trs segments segs.
           diarize E audio_file hf_token fs = Some trs
         \<and> map utterance_key segments = map track_key trs
         \<and> transcript = concat (map render_line segs)
         \<and> (\<forall>k. filter (\<lambda>u. d_start u = k) segs = filter (\<lambda>u. d_start u = k) segments)"
proof -
  from run_success[OF assms] obtain trs segments where
    "diarize E audio_file hf_token fs = Some trs"
    "map utterance_key segments = map track_key trs"
    "transcript = assemble segments"
    by blast
  moreover have "\<forall>k. filter (\<lambda>u. d_start u = k) (sort_key d_start segments)
                   = filter (\<lambda>u. d_start u = k) segments"
    by (simp add: sort_key_stable)
  ultimately show ?thesis
    unfolding assemble_def render_concat by blast
qed

theorem ties_keep_yield_order_witness:
  "fst (transcribe_speaker_diarization E0 ''talk.m4a'' ''hf'' fs0) = Inr transcript0
   \<and> (\<exists>trs segments segs.
           diarize E0 ''talk.m4a'' ''hf'' fs0 = Some trs
         \<and> map utterance_key segments = map track_key trs
         \<and> transcript0 = concat (map render_line segs)
         \<and> (\<forall>k. filter (\<lambda>u. d_start u = k) segs = filter (\<lambda>u. d_start u = k) segments))"
  using ties_keep_yield_order[OF run0] run0 by simp

end
